theory Spec2Isabelle
  imports Complex_Main "HOL-Library.Char_ord" "HOL-Library.List_Lexorder"
begin

section \<open>Floating-point values of the analysis\<close>

text \<open>
  The script \<^verbatim>\<open>analysis.py\<close> computes with pandas/numpy \<^verbatim>\<open>float64\<close> columns.
  A value is modelled as a finite number, one of the two infinities, or NaN
  (\<^verbatim>\<open>np.nan\<close>, the marker pandas uses for a missing or undefined entry).
  Finite values are exact rationals: rounding is not modelled, and there is a single
  zero, which divides like IEEE's \<^verbatim>\<open>+0.0\<close>.  numpy and pandas division never raises:
  a zero divisor gives an infinity or NaN (the script silences the warnings).
\<close>

datatype fval = Fin rat | PInf | NInf | NaN

fun fneg :: "fval \<Rightarrow> fval" where
  "fneg (Fin a) = Fin (- a)"
| "fneg PInf = NInf"
| "fneg NInf = PInf"
| "fneg NaN = NaN"

fun fadd :: "fval \<Rightarrow> fval \<Rightarrow> fval" where
  "fadd NaN _ = NaN"
| "fadd _ NaN = NaN"
| "fadd (Fin a) (Fin b) = Fin (a + b)"
| "fadd PInf NInf = NaN"
| "fadd NInf PInf = NaN"
| "fadd PInf _ = PInf"
| "fadd NInf _ = NInf"
| "fadd (Fin a) PInf = PInf"
| "fadd (Fin a) NInf = NInf"

definition fsub :: "fval \<Rightarrow> fval \<Rightarrow> fval" where
  "fsub a b = fadd a (fneg b)"

text \<open>The sign of a product or quotient with an infinite factor; a zero factor gives NaN.\<close>

definition signed_inf :: "bool \<Rightarrow> fval" where
  "signed_inf positive = (if positive then PInf else NInf)"

fun fmul :: "fval \<Rightarrow> fval \<Rightarrow> fval" where
  "fmul NaN _ = NaN"
| "fmul _ NaN = NaN"
| "fmul (Fin a) (Fin b) = Fin (a * b)"
| "fmul (Fin a) PInf = (if a = 0 then NaN else signed_inf (0 < a))"
| "fmul (Fin a) NInf = (if a = 0 then NaN else signed_inf (a < 0))"
| "fmul PInf (Fin b) = (if b = 0 then NaN else signed_inf (0 < b))"
| "fmul NInf (Fin b) = (if b = 0 then NaN else signed_inf (b < 0))"
| "fmul PInf PInf = PInf"
| "fmul NInf NInf = PInf"
| "fmul PInf NInf = NInf"
| "fmul NInf PInf = NInf"

fun fdiv :: "fval \<Rightarrow> fval \<Rightarrow> fval" where
  "fdiv NaN _ = NaN"
| "fdiv _ NaN = NaN"
| "fdiv (Fin a) (Fin b) =
     (if b \<noteq> 0 then Fin (a / b)
      else if a = 0 then NaN
      else signed_inf (0 < a))"
| "fdiv (Fin a) PInf = Fin 0"
| "fdiv (Fin a) NInf = Fin 0"
| "fdiv PInf (Fin b) = signed_inf (0 \<le> b)"
| "fdiv NInf (Fin b) = signed_inf (b < 0)"
| "fdiv PInf _ = NaN"
| "fdiv NInf _ = NaN"

definition of_count :: "int \<Rightarrow> fval" where
  "of_count n = Fin (of_int n)"

definition is_finite :: "fval \<Rightarrow> bool" where
  "is_finite v = (case v of Fin _ \<Rightarrow> True | _ \<Rightarrow> False)"

text \<open>\<^verbatim>\<open>np.where(cond, a, b)\<close>: both branches are computed, then one is selected.\<close>

definition np_where :: "bool \<Rightarrow> 'a \<Rightarrow> 'a \<Rightarrow> 'a" where
  "np_where c a b = (if c then a else b)"

text \<open>
  \<^verbatim>\<open>Series.mean()\<close> with the default \<^verbatim>\<open>skipna=True\<close>: NaN entries are left out,
  the mean of no entries is NaN, infinities are kept.
\<close>

definition fsum :: "fval list \<Rightarrow> fval" where
  "fsum vs = foldl fadd (Fin 0) vs"

definition pd_mean :: "fval list \<Rightarrow> fval" where
  "pd_mean vs =
     (let kept = filter (\<lambda>v. v \<noteq> NaN) vs
      in if kept = [] then NaN else fdiv (fsum kept) (Fin (of_nat (length kept))))"

section \<open>Records and configuration literals\<close>

text \<open>
  One row of \<^verbatim>\<open>SmsDeliveryReport.csv\<close>.  A date is its day ordinal (Python's
  \<^verbatim>\<open>date.toordinal()\<close>), so that dates subtract to a number of days.
\<close>

record sms_row =
  Date :: int
  Phone_Number :: int
  Carrier_Group :: string
  Segment :: string
  Sent :: int
  Delivered :: int
  Clicks :: int
  Unique_Clicks :: int
  Bounces :: int
  Refusals :: int
  Revenue :: rat

definition excluded_phone :: int where
  "excluded_phone = 20407"

text \<open>\<^verbatim>\<open>pd.Timestamp("2026-02-04")\<close> as a day ordinal.\<close>

definition cutoff :: int where
  "cutoff = 739651"

definition retired_phones :: "int list" where
  "retired_phones = [15122546961, 15122546963, 15122546966, 15122546967]"

section \<open>ETL: filter and enrichment\<close>

text \<open>\<^verbatim>\<open>df = raw[raw["Sms Phone Number"] != 20407].copy()\<close>\<close>

definition df :: "sms_row list \<Rightarrow> sms_row list" where
  "df raw = filter (\<lambda>r. Phone_Number r \<noteq> excluded_phone) raw"

text \<open>\<^verbatim>\<open>Series.unique()\<close>: the distinct values in order of first appearance.\<close>

definition unique :: "'a list \<Rightarrow> 'a list" where
  "unique xs = rev (remdups (rev xs))"

text \<open>The decimal rendering of a number inside an f-string.\<close>

definition digit_char :: "nat \<Rightarrow> char" where
  "digit_char d = ''0123456789'' ! d"

fun str_nat :: "nat \<Rightarrow> string" where
  "str_nat n = (if n < 10 then [digit_char n] else str_nat (n div 10) @ [digit_char (n mod 10)])"

declare str_nat.simps [simp del]

definition phone_label :: "nat \<Rightarrow> string" where
  "phone_label i = ''Phone_'' @ str_nat (i + 1)"

text \<open>
  \<^verbatim>\<open>phone_map = {v: f"Phone_{i+1}" for i, v in enumerate(sorted(df[...].unique()))}\<close>:
  the dictionary as the list of its items, and its lookup.
\<close>

definition phone_ids :: "sms_row list \<Rightarrow> int list" where
  "phone_ids d = sort (unique (map Phone_Number d))"

definition phone_map_items :: "sms_row list \<Rightarrow> (int \<times> string) list" where
  "phone_map_items d = map (\<lambda>(i, v). (v, phone_label i)) (enumerate 0 (phone_ids d))"

definition phone_map :: "sms_row list \<Rightarrow> int \<rightharpoonup> string" where
  "phone_map d = map_of (phone_map_items d)"

text \<open>The enriched row: the derived columns the script adds to \<^verbatim>\<open>df\<close>.\<close>

record enriched_row = sms_row +
  DayNum :: int
  Delivery_Rate :: fval
  CTR :: fval
  Rev_per_Sent :: fval
  Phone_Label :: "string option"
  Phone_Group :: string

definition enrich_row :: "sms_row list \<Rightarrow> sms_row \<Rightarrow> enriched_row" where
  "enrich_row d r =
     \<lparr>Date = Date r, Phone_Number = Phone_Number r, Carrier_Group = Carrier_Group r,
      Segment = Segment r, Sent = Sent r, Delivered = Delivered r, Clicks = Clicks r,
      Unique_Clicks = Unique_Clicks r, Bounces = Bounces r, Refusals = Refusals r,
      Revenue = Revenue r,
      DayNum = Date r - Min (set (map Date d)),
      Delivery_Rate =
        np_where (Sent r > 0) (fdiv (of_count (Delivered r)) (of_count (Sent r))) NaN,
      CTR = np_where (Sent r > 0) (fdiv (of_count (Clicks r)) (of_count (Sent r))) NaN,
      Rev_per_Sent = np_where (Sent r > 0) (fdiv (Fin (Revenue r)) (of_count (Sent r))) NaN,
      Phone_Label = phone_map d (Phone_Number r),
      Phone_Group =
        np_where (Phone_Number r \<in> set retired_phones)
          ''Retired (4 numbers)'' ''Active (2 numbers)''\<rparr>"

definition enrich :: "sms_row list \<Rightarrow> enriched_row list" where
  "enrich raw = map (enrich_row (df raw)) (df raw)"

section \<open>Daily aggregates\<close>

text \<open>
  \<^verbatim>\<open>daily = df.groupby("Date").agg(... "sum" ...).sort_index()\<close> followed by the
  rate columns, which divide the daily sums without a guard.
\<close>

record daily_row =
  dDate :: int
  dRevenue :: rat
  dSent :: int
  dDelivered :: int
  dClicks :: int
  dUnique_Clicks :: int
  dBounces :: int
  dRefusals :: int
  dDelivery_Rate :: fval
  dCTR :: fval
  dRev_per_Sent :: fval
  dRev_per_Click :: fval
  dDayNum :: int

definition group_dates :: "sms_row list \<Rightarrow> int list" where
  "group_dates d = sort (unique (map Date d))"

definition on_date :: "int \<Rightarrow> sms_row list \<Rightarrow> sms_row list" where
  "on_date t d = filter (\<lambda>r. Date r = t) d"

text \<open>\<^verbatim>\<open>Series.replace(0, 1)\<close> on one entry.\<close>

definition replace_0_1 :: "int \<Rightarrow> int" where
  "replace_0_1 c = (if c = 0 then 1 else c)"

definition daily_of :: "sms_row list \<Rightarrow> int \<Rightarrow> daily_row" where
  "daily_of d t =
     (let g = on_date t d;
          revenue = sum_list (map Revenue g);
          sent = sum_list (map Sent g);
          delivered = sum_list (map Delivered g);
          clicks = sum_list (map Clicks g)
      in \<lparr>dDate = t, dRevenue = revenue, dSent = sent, dDelivered = delivered,
          dClicks = clicks,
          dUnique_Clicks = sum_list (map Unique_Clicks g),
          dBounces = sum_list (map Bounces g),
          dRefusals = sum_list (map Refusals g),
          dDelivery_Rate = fdiv (of_count delivered) (of_count sent),
          dCTR = fdiv (of_count clicks) (of_count sent),
          dRev_per_Sent = fdiv (Fin revenue) (of_count sent),
          dRev_per_Click = fdiv (Fin revenue) (of_count (replace_0_1 clicks)),
          dDayNum = t - Min (set (group_dates d))\<rparr>)"

definition daily :: "sms_row list \<Rightarrow> daily_row list" where
  "daily raw = map (daily_of (df raw)) (group_dates (df raw))"

section \<open>Descriptive statistics\<close>

definition pre :: "sms_row list \<Rightarrow> daily_row list" where
  "pre raw = filter (\<lambda>x. dDate x < cutoff) (daily raw)"

definition post :: "sms_row list \<Rightarrow> daily_row list" where
  "post raw = filter (\<lambda>x. dDate x \<ge> cutoff) (daily raw)"

text \<open>The seven columns of \<^verbatim>\<open>desc_table\<close>, each read as a float.\<close>

definition desc_metrics :: "(string \<times> (daily_row \<Rightarrow> fval)) list" where
  "desc_metrics =
     [(''Revenue'', \<lambda>x. Fin (dRevenue x)),
      (''Sent'', \<lambda>x. of_count (dSent x)),
      (''Delivered'', \<lambda>x. of_count (dDelivered x)),
      (''Clicks'', \<lambda>x. of_count (dClicks x)),
      (''Delivery_Rate'', dDelivery_Rate),
      (''CTR'', dCTR),
      (''Rev_per_Sent'', dRev_per_Sent)]"

text \<open>\<^verbatim>\<open>(post_mean - pre_mean) / pre_mean * 100\<close>\<close>

definition pct_change :: "fval \<Rightarrow> fval \<Rightarrow> fval" where
  "pct_change pre_mean post_mean = fmul (fdiv (fsub post_mean pre_mean) pre_mean) (Fin 100)"

record desc_row =
  Metric :: string
  Pre_Decline_Mean :: fval
  Post_Decline_Mean :: fval
  Pct_Change :: fval

definition desc_row_of :: "sms_row list \<Rightarrow> string \<times> (daily_row \<Rightarrow> fval) \<Rightarrow> desc_row" where
  "desc_row_of raw m =
     (let pre_mean = pd_mean (map (snd m) (pre raw));
          post_mean = pd_mean (map (snd m) (post raw))
      in \<lparr>Metric = fst m, Pre_Decline_Mean = pre_mean, Post_Decline_Mean = post_mean,
          Pct_Change = pct_change pre_mean post_mean\<rparr>)"

definition desc_table :: "sms_row list \<Rightarrow> desc_row list" where
  "desc_table raw = map (desc_row_of raw) desc_metrics"

section \<open>Decomposition of the revenue decline\<close>

definition pre_df :: "sms_row list \<Rightarrow> sms_row list" where
  "pre_df raw = filter (\<lambda>r. Date r < cutoff) (df raw)"

definition post_df :: "sms_row list \<Rightarrow> sms_row list" where
  "post_df raw = filter (\<lambda>r. Date r \<ge> cutoff) (df raw)"

text \<open>\<^verbatim>\<open>Series.nunique()\<close>\<close>

definition nunique :: "'a list \<Rightarrow> nat" where
  "nunique xs = length (unique xs)"

definition n_pre_days :: "sms_row list \<Rightarrow> nat" where
  "n_pre_days raw = nunique (map Date (pre_df raw))"

definition n_post_days :: "sms_row list \<Rightarrow> nat" where
  "n_post_days raw = nunique (map Date (post_df raw))"

text \<open>A column sum divided by a number of days: numpy scalars, so no exception on zero days.\<close>

definition per_day :: "rat \<Rightarrow> nat \<Rightarrow> fval" where
  "per_day amount days = fdiv (Fin amount) (Fin (of_nat days))"

definition pre_avg_rev :: "sms_row list \<Rightarrow> fval" where
  "pre_avg_rev raw = per_day (sum_list (map Revenue (pre_df raw))) (n_pre_days raw)"

definition post_avg_rev :: "sms_row list \<Rightarrow> fval" where
  "post_avg_rev raw = per_day (sum_list (map Revenue (post_df raw))) (n_post_days raw)"

definition total_decline :: "sms_row list \<Rightarrow> fval" where
  "total_decline raw = fsub (post_avg_rev raw) (pre_avg_rev raw)"

definition pre_avg_sent :: "sms_row list \<Rightarrow> fval" where
  "pre_avg_sent raw = per_day (of_int (sum_list (map Sent (pre_df raw)))) (n_pre_days raw)"

definition post_avg_sent :: "sms_row list \<Rightarrow> fval" where
  "post_avg_sent raw = per_day (of_int (sum_list (map Sent (post_df raw)))) (n_post_days raw)"

definition pre_rps :: "sms_row list \<Rightarrow> fval" where
  "pre_rps raw = fdiv (pre_avg_rev raw) (pre_avg_sent raw)"

definition post_rps :: "sms_row list \<Rightarrow> fval" where
  "post_rps raw = fdiv (post_avg_rev raw) (post_avg_sent raw)"

definition volume_effect :: "sms_row list \<Rightarrow> fval" where
  "volume_effect raw = fmul (fsub (post_avg_sent raw) (pre_avg_sent raw)) (pre_rps raw)"

definition efficiency_effect :: "sms_row list \<Rightarrow> fval" where
  "efficiency_effect raw = fmul (fsub (post_rps raw) (pre_rps raw)) (post_avg_sent raw)"

text \<open>\<^verbatim>\<open>x[x["Sms Phone Number"].isin(retired_phones)]\<close> and its complement.\<close>

definition isin_retired :: "sms_row list \<Rightarrow> sms_row list" where
  "isin_retired d = filter (\<lambda>r. Phone_Number r \<in> set retired_phones) d"

definition not_isin_retired :: "sms_row list \<Rightarrow> sms_row list" where
  "not_isin_retired d = filter (\<lambda>r. \<not> Phone_Number r \<in> set retired_phones) d"

definition pre_retired_rev :: "sms_row list \<Rightarrow> fval" where
  "pre_retired_rev raw =
     per_day (sum_list (map Revenue (isin_retired (pre_df raw)))) (n_pre_days raw)"

definition post_retired_rev :: "sms_row list \<Rightarrow> fval" where
  "post_retired_rev raw =
     per_day (sum_list (map Revenue (isin_retired (post_df raw)))) (n_post_days raw)"

definition retired_effect :: "sms_row list \<Rightarrow> fval" where
  "retired_effect raw = fsub (post_retired_rev raw) (pre_retired_rev raw)"

definition pre_active_rev :: "sms_row list \<Rightarrow> fval" where
  "pre_active_rev raw =
     per_day (sum_list (map Revenue (not_isin_retired (pre_df raw)))) (n_pre_days raw)"

definition post_active_rev :: "sms_row list \<Rightarrow> fval" where
  "post_active_rev raw =
     per_day (sum_list (map Revenue (not_isin_retired (post_df raw)))) (n_post_days raw)"

definition active_effect :: "sms_row list \<Rightarrow> fval" where
  "active_effect raw = fsub (post_active_rev raw) (pre_active_rev raw)"

text \<open>The share printed beside each effect: \<^verbatim>\<open>effect / total_decline * 100\<close>.\<close>

definition share_of_decline :: "sms_row list \<Rightarrow> fval \<Rightarrow> fval" where
  "share_of_decline raw effect = fmul (fdiv effect (total_decline raw)) (Fin 100)"

section \<open>Regression designs and the run of the script\<close>











text \<open>Reading a decimal rendering back, to show that distinct numbers render differently.\<close>

definition digit_val :: "char \<Rightarrow> nat" where
  "digit_val c = of_char c - 48"

definition nat_of_str :: "string \<Rightarrow> nat" where
  "nat_of_str s = foldl (\<lambda>a c. 10 * a + digit_val c) 0 s"

text \<open>A rate that is a number between 0 and 1.\<close>

definition in_unit_interval :: "fval \<Rightarrow> bool" where
  "in_unit_interval v = (case v of Fin q \<Rightarrow> 0 \<le> q \<and> q \<le> 1 | _ \<Rightarrow> False)"

section \<open>Example datasets\<close>

text \<open>A row of the input file from its date, phone number, counts and revenue.\<close>

definition mk_row :: "int \<Rightarrow> int \<Rightarrow> int \<Rightarrow> int \<Rightarrow> int \<Rightarrow> rat \<Rightarrow> sms_row" where
  "mk_row date phone sent delivered clicks revenue =
     \<lparr>Date = date, Phone_Number = phone, Carrier_Group = ''T-Mobile'', Segment = ''Clicker'',
      Sent = sent, Delivered = delivered, Clicks = clicks, Unique_Clicks = clicks,
      Bounces = 0, Refusals = 0, Revenue = revenue\<rparr>"

text \<open>
  Two days around the cutoff: revenue 100 on 100 sends before it, 200 on 100 sends from it
  on, one retired and one active phone, and a row of the excluded short code.
\<close>

definition scenario_two_days :: "sms_row list" where
  "scenario_two_days =
     [mk_row 739650 15122546961 60 60 3 70,
      mk_row 739650 15122546962 40 40 2 30,
      mk_row 739650 20407 500 500 9 999,
      mk_row 739651 15122546962 100 90 4 200]"

text \<open>The same daily revenue before and after the cutoff, on twice the volume; no click before it.\<close>

definition flat_revenue :: "sms_row list" where
  "flat_revenue =
     [mk_row 739650 15122546961 100 100 0 100,
      mk_row 739651 15122546962 200 200 5 100]"

text \<open>A day on which each message is clicked more than once.\<close>

definition many_clicks :: "sms_row list" where
  "many_clicks = [mk_row 739650 15122546961 10 10 25 4]"

text \<open>A row with nothing sent.\<close>

definition zero_sent_row :: sms_row where
  "zero_sent_row = mk_row 739650 15122546961 0 0 0 0"

text \<open>A day on which nothing was sent, and an ordinary day.\<close>

definition zero_sent_day :: "sms_row list" where
  "zero_sent_day = [zero_sent_row, mk_row 739652 15122546962 20 19 1 7]"

text \<open>One day of data: one observation for the two predictors of Model 1.\<close>

definition single_day :: "sms_row list" where
  "single_day = [mk_row 739650 15122546961 100 100 3 50]"

text \<open>Three and seven days of data from one carrier, segment and phone.\<close>

definition three_days :: "sms_row list" where
  "three_days =
     [mk_row 739650 15122546962 100 100 3 50,
      mk_row 739651 15122546962 90 90 2 40,
      mk_row 739652 15122546962 80 80 1 30]"

definition seven_days :: "sms_row list" where
  "seven_days =
     [mk_row 739648 15122546962 120 120 5 70,
      mk_row 739649 15122546962 110 110 4 60,
      mk_row 739650 15122546962 100 100 3 50,
      mk_row 739651 15122546962 90 90 2 40,
      mk_row 739652 15122546962 80 80 1 30,
      mk_row 739653 15122546962 70 70 1 20,
      mk_row 739654 15122546962 60 60 0 10]"


text \<open>
  The float quotient \<^verbatim>\<open>x / 0 * 100\<close>: NaN for a zero or NaN numerator, the infinity
  of the numerator's sign otherwise.
\<close>

definition zero_divisor_quotient :: "fval \<Rightarrow> fval" where
  "zero_divisor_quotient numerator =
     (case numerator of
        Fin a \<Rightarrow> if a = 0 then NaN else signed_inf (0 < a)
      | v \<Rightarrow> v)"

section \<open>Evaluation rules and basic facts\<close>

lemmas ex_defs = mk_row_def scenario_two_days_def flat_revenue_def many_clicks_def zero_sent_row_def
  single_day_def three_days_def seven_days_def
lemmas etl_defs = df_def excluded_phone_def cutoff_def unique_def
lemmas daily_defs = daily_def group_dates_def daily_of_def on_date_def of_count_def replace_0_1_def Let_def
lemmas decomp_defs = pre_df_def post_df_def n_pre_days_def n_post_days_def nunique_def per_day_def
  pre_avg_rev_def post_avg_rev_def total_decline_def pre_avg_sent_def post_avg_sent_def
  pre_rps_def post_rps_def volume_effect_def efficiency_effect_def fsub_def
  isin_retired_def not_isin_retired_def retired_phones_def pre_retired_rev_def post_retired_rev_def pre_active_rev_def post_active_rev_def
  retired_effect_def active_effect_def share_of_decline_def signed_inf_def

lemma unique_eq_Nil: "unique xs = [] \<longleftrightarrow> xs = []"
  by (simp add: unique_def)

lemma set_unique: "set (unique xs) = set xs"
  by (simp add: unique_def)

lemma distinct_unique: "distinct (unique xs)"
  by (simp add: unique_def)

lemma nunique_pos: "xs \<noteq> [] \<Longrightarrow> nunique xs \<noteq> 0"
  by (simp add: nunique_def unique_eq_Nil)

lemma per_day_Fin: "days \<noteq> 0 \<Longrightarrow> per_day amount days = Fin (amount / of_nat days)"
  by (simp add: per_day_def)

lemma sum_list_split_filter:
  "sum_list (map f (filter P xs)) + sum_list (map f (filter (\<lambda>x. \<not> P x) xs)) = (sum_list (map f xs) :: rat)"
  by (induction xs) auto

lemma per_day_add:
  "days \<noteq> 0 \<Longrightarrow> fadd (per_day a days) (per_day b days) = per_day (a + b) days"
  by (simp add: per_day_Fin add_divide_distrib)

lemma fsub_Fin: "fsub (Fin a) (Fin b) = Fin (a - b)"
  by (simp add: fsub_def)

lemma dDate_daily: "map dDate (daily raw) = group_dates (df raw)"
  by (simp add: daily_def daily_of_def Let_def comp_def)

lemma in_daily: "x \<in> set (daily raw) \<Longrightarrow> x = daily_of (df raw) (dDate x)"
  by (auto simp: daily_def daily_of_def Let_def)

lemma daily_rates:
  assumes "x \<in> set (daily raw)"
  shows "dDelivery_Rate x = fdiv (of_count (dDelivered x)) (of_count (dSent x))"
    and "dCTR x = fdiv (of_count (dClicks x)) (of_count (dSent x))"
    and "dRev_per_Sent x = fdiv (Fin (dRevenue x)) (of_count (dSent x))"
    and "dRev_per_Click x = fdiv (Fin (dRevenue x)) (of_count (replace_0_1 (dClicks x)))"
  using assms by (auto simp: daily_def daily_of_def Let_def)

lemma ratio_in_unit_interval:
  "0 < s \<Longrightarrow> 0 \<le> a \<Longrightarrow> a \<le> s \<Longrightarrow> in_unit_interval (fdiv (of_count a) (of_count s))"
  by (simp add: in_unit_interval_def of_count_def)

lemma pct_change_zero: "pct_change (Fin 0) v = zero_divisor_quotient v"
  by (cases v) (simp_all add: pct_change_def zero_divisor_quotient_def fsub_def signed_inf_def)

lemma digit_val_digit_char: "d < 10 \<Longrightarrow> digit_val (digit_char d) = d"
proof -
  assume "d < 10"
  then have "d = 0 \<or> d = 1 \<or> d = 2 \<or> d = 3 \<or> d = 4 \<or> d = 5 \<or> d = 6 \<or> d = 7 \<or> d = 8 \<or> d = 9"
    by arith
  then show ?thesis
    by (elim disjE) (simp_all add: digit_char_def digit_val_def)
qed

lemma nat_of_str_snoc: "nat_of_str (s @ [c]) = 10 * nat_of_str s + digit_val c"
  by (simp add: nat_of_str_def)

lemma nat_of_str_str_nat: "nat_of_str (str_nat n) = n"
proof (induction n rule: str_nat.induct)
  case (1 n)
  show ?case
  proof (cases "n < 10")
    case True
    then show ?thesis
      by (subst str_nat.simps) (simp add: nat_of_str_def digit_val_digit_char)
  next
    case False
    then have "nat_of_str (str_nat (n div 10)) = n div 10"
      using "1.IH" by simp
    with False show ?thesis
      by (subst str_nat.simps) (simp add: nat_of_str_snoc digit_val_digit_char)
  qed
qed

lemma inj_str_nat: "inj str_nat"
  by (rule inj_on_inverseI [where g = nat_of_str]) (rule nat_of_str_str_nat)

lemma inj_phone_label: "inj phone_label"
  using inj_str_nat by (auto simp: inj_def phone_label_def)

lemma phone_ids_props:
  "sorted_wrt (<) (phone_ids d)" "distinct (phone_ids d)"
  "set (phone_ids d) = Phone_Number ` set d"
  by (simp_all add: phone_ids_def set_unique distinct_unique strict_sorted_iff)

lemma phone_map_items_zip:
  "phone_map_items d = zip (phone_ids d) (map phone_label [0..<length (phone_ids d)])"
  by (rule nth_equalityI) (simp_all add: phone_map_items_def nth_enumerate_eq)

lemma phone_map_nth:
  "i < length (phone_ids d) \<Longrightarrow> phone_map d (phone_ids d ! i) = Some (phone_label i)"
  unfolding phone_map_def phone_map_items_zip
  using map_of_zip_nth [of "phone_ids d" "map phone_label [0..<length (phone_ids d)]" i]
  by (simp add: phone_ids_props)

lemma dom_phone_map: "dom (phone_map d) = Phone_Number ` set d"
  unfolding phone_map_def phone_map_items_zip
  by (simp add: phone_ids_props)

lemma phone_map_cong:
  assumes "Phone_Number ` set d' = Phone_Number ` set d"
  shows "phone_map d' = phone_map d"
proof -
  have "phone_ids d' = phone_ids d"
    using assms phone_ids_props [of d] phone_ids_props [of d']
    by (metis strict_sorted_equal)
  then show ?thesis
    by (simp add: phone_map_def phone_map_items_def)
qed

lemma phone_map_bij:
  "bij_betw (\<lambda>v. the (phone_map d v)) (Phone_Number ` set d)
     (phone_label ` {0..<length (phone_ids d)})"
proof -
  let ?ids = "phone_ids d" and ?f = "\<lambda>v. the (phone_map d v)"
  have nth: "?f (?ids ! i) = phone_label i" if "i < length ?ids" for i
    using that by (simp add: phone_map_nth)
  have "inj_on ?f (set ?ids)"
  proof (rule inj_onI)
    fix a b assume "a \<in> set ?ids" "b \<in> set ?ids" "?f a = ?f b"
    then obtain i j where "i < length ?ids" "a = ?ids ! i" "j < length ?ids" "b = ?ids ! j"
      by (metis in_set_conv_nth)
    with \<open>?f a = ?f b\<close> show "a = b"
      using nth inj_phone_label by (auto dest: injD)
  qed
  moreover have "?f ` set ?ids = phone_label ` {0..<length ?ids}"
  proof -
    have "set ?ids = (\<lambda>i. ?ids ! i) ` {0..<length ?ids}"
      by (simp add: set_conv_nth image_def) (metis atLeastLessThan_iff le0)
    then have "?f ` set ?ids = (\<lambda>i. ?f (?ids ! i)) ` {0..<length ?ids}"
      by (simp add: image_image)
    also have "\<dots> = phone_label ` {0..<length ?ids}"
      using nth by (intro image_cong) auto
    finally show ?thesis .
  qed
  ultimately show ?thesis
    by (simp add: bij_betw_def phone_ids_props)
qed

lemma label_image:
  "phone_label ` {0..<n} = (\<lambda>k. ''Phone_'' @ str_nat k) ` {1..n}"
proof -
  have "phone_label ` {0..<n} = (\<lambda>i. ''Phone_'' @ str_nat (Suc i)) ` {0..<n}"
    by (rule image_cong) (simp_all add: phone_label_def)
  also have "\<dots> = (\<lambda>k. ''Phone_'' @ str_nat k) ` Suc ` {0..<n}"
    by (simp only: image_image)
  also have "Suc ` {0..<n} = {1..n}"
    by (simp add: atLeastLessThanSuc_atLeastAtMost)
  finally show ?thesis .
qed

lemma ran_eq_image: "ran m = (\<lambda>v. the (m v)) ` dom m"
  by (force simp: ran_def dom_def image_def)


lemma df_idem: "df (df raw) = df raw"
  by (simp add: df_def)


lemma Phone_df: "Phone_Number ` set (df raw) = Phone_Number ` set raw - {excluded_phone}"
  by (auto simp: df_def)


section \<open>Decomposition additivity\<close>

text \<open>
  C1.  When both periods have rows and neither average daily send volume is zero, the
  total decline is a finite number and the volume effect plus the efficiency effect is
  that number.  Finite values are exact rationals here, so the sum is exact; the rounding
  error of float64, which the tolerance of the claim covers, is outside the model.
\<close>

theorem decomposition_volume_efficiency:
  assumes "pre_df raw \<noteq> []" and "post_df raw \<noteq> []"
    and "pre_avg_sent raw \<noteq> Fin 0" and "post_avg_sent raw \<noteq> Fin 0"
  shows "\<exists>t. total_decline raw = Fin t
           \<and> fadd (volume_effect raw) (efficiency_effect raw) = Fin t"
proof -
  have n0: "n_pre_days raw \<noteq> 0" and n1: "n_post_days raw \<noteq> 0"
    using assms(1,2) by (simp_all add: n_pre_days_def n_post_days_def nunique_pos)
  obtain r0 where r0: "pre_avg_rev raw = Fin r0"
    using n0 by (simp add: pre_avg_rev_def per_day_Fin)
  obtain r1 where r1: "post_avg_rev raw = Fin r1"
    using n1 by (simp add: post_avg_rev_def per_day_Fin)
  obtain s0 where s0: "pre_avg_sent raw = Fin s0"
    using n0 by (simp add: pre_avg_sent_def per_day_Fin)
  obtain s1 where s1: "post_avg_sent raw = Fin s1"
    using n1 by (simp add: post_avg_sent_def per_day_Fin)
  have nz: "s0 \<noteq> 0" "s1 \<noteq> 0" using assms(3,4) s0 s1 by auto
  have "(s1 - s0) * (r0 / s0) + (r1 / s1 - r0 / s0) * s1 = r1 - r0"
    using nz by (simp add: field_simps)
  then show ?thesis
    using nz by (simp add: volume_effect_def efficiency_effect_def total_decline_def
        pre_rps_def post_rps_def fsub_Fin r0 r1 s0 s1)
qed

theorem decomposition_volume_efficiency_witness:
  "pre_df scenario_two_days \<noteq> [] \<and> post_df scenario_two_days \<noteq> []
   \<and> pre_avg_sent scenario_two_days \<noteq> Fin 0 \<and> post_avg_sent scenario_two_days \<noteq> Fin 0
   \<and> pre_rps scenario_two_days = Fin 1 \<and> post_rps scenario_two_days = Fin 2
   \<and> total_decline scenario_two_days = Fin 100
   \<and> volume_effect scenario_two_days = Fin 0
   \<and> efficiency_effect scenario_two_days = Fin 100
   \<and> fadd (volume_effect scenario_two_days) (efficiency_effect scenario_two_days) = Fin 100"
proof -
  have h: "pre_df scenario_two_days \<noteq> []" "post_df scenario_two_days \<noteq> []"
    "pre_avg_sent scenario_two_days \<noteq> Fin 0" "post_avg_sent scenario_two_days \<noteq> Fin 0"
    by (simp_all add: ex_defs etl_defs decomp_defs)
  have v: "total_decline scenario_two_days = Fin 100" "pre_rps scenario_two_days = Fin 1"
    "post_rps scenario_two_days = Fin 2" "volume_effect scenario_two_days = Fin 0"
    "efficiency_effect scenario_two_days = Fin 100"
    by (simp_all add: ex_defs etl_defs decomp_defs)
  show ?thesis
    using h decomposition_volume_efficiency [OF h] by (simp add: v)
qed

text \<open>
  C2.  When both periods have rows, the retired-phone effect plus the active-phone effect
  is the total decline, a finite number: membership in \<^verbatim>\<open>retired_phones\<close> and its
  negation split every period's rows in two.
\<close>

theorem decomposition_phone_groups:
  assumes "pre_df raw \<noteq> []" and "post_df raw \<noteq> []"
  shows "\<exists>t. total_decline raw = Fin t
           \<and> fadd (retired_effect raw) (active_effect raw) = Fin t"
proof -
  have n0: "n_pre_days raw \<noteq> 0" and n1: "n_post_days raw \<noteq> 0"
    using assms(1,2) by (simp_all add: n_pre_days_def n_post_days_def nunique_pos)
  have p: "sum_list (map Revenue (isin_retired d)) + sum_list (map Revenue (not_isin_retired d))
        = sum_list (map Revenue d)" for d
    unfolding isin_retired_def not_isin_retired_def by (rule sum_list_split_filter)
  obtain a0 where a0: "pre_retired_rev raw = Fin a0"
    using n0 by (simp add: pre_retired_rev_def per_day_Fin)
  obtain b0 where b0: "pre_active_rev raw = Fin b0"
    using n0 by (simp add: pre_active_rev_def per_day_Fin)
  obtain a1 where a1: "post_retired_rev raw = Fin a1"
    using n1 by (simp add: post_retired_rev_def per_day_Fin)
  obtain b1 where b1: "post_active_rev raw = Fin b1"
    using n1 by (simp add: post_active_rev_def per_day_Fin)
  have "fadd (pre_retired_rev raw) (pre_active_rev raw) = pre_avg_rev raw"
    unfolding pre_retired_rev_def pre_active_rev_def pre_avg_rev_def
    by (simp only: per_day_add [OF n0] p)
  then have pre: "pre_avg_rev raw = Fin (a0 + b0)"
    by (simp add: a0 b0)
  have "fadd (post_retired_rev raw) (post_active_rev raw) = post_avg_rev raw"
    unfolding post_retired_rev_def post_active_rev_def post_avg_rev_def
    by (simp only: per_day_add [OF n1] p)
  then have post: "post_avg_rev raw = Fin (a1 + b1)"
    by (simp add: a1 b1)
  show ?thesis
    by (simp add: total_decline_def retired_effect_def active_effect_def
        pre post a0 b0 a1 b1 fsub_Fin)
qed

theorem decomposition_phone_groups_witness:
  "pre_df scenario_two_days \<noteq> [] \<and> post_df scenario_two_days \<noteq> []
   \<and> retired_effect scenario_two_days = Fin (- 70)
   \<and> active_effect scenario_two_days = Fin 170
   \<and> total_decline scenario_two_days = Fin 100
   \<and> fadd (retired_effect scenario_two_days) (active_effect scenario_two_days) = Fin 100"
proof -
  have h: "pre_df scenario_two_days \<noteq> []" "post_df scenario_two_days \<noteq> []"
    by (simp_all add: ex_defs etl_defs decomp_defs)
  have v: "retired_effect scenario_two_days = Fin (- 70)"
    "active_effect scenario_two_days = Fin 170" "total_decline scenario_two_days = Fin 100"
    by (simp_all add: ex_defs etl_defs decomp_defs)
  show ?thesis
    using h decomposition_phone_groups [OF h] by (simp add: v)
qed

section \<open>Zero denominators and rate bounds\<close>

text \<open>
  C3, as stated, fails: on a day with more clicks than messages sent the click-through
  rate of the daily aggregate is above 1, since the daily rates divide the sums with no
  bound on the numerator.
\<close>

theorem daily_rate_bounds_counterexample:
  "\<not> (\<forall>x \<in> set (daily many_clicks). 0 < dSent x \<longrightarrow>
        in_unit_interval (dDelivery_Rate x) \<and> in_unit_interval (dCTR x))"
  by (simp add: ex_defs etl_defs daily_defs in_unit_interval_def)

text \<open>
  C3, amended.  In every row of the daily aggregate, the delivery rate lies in [0, 1] when
  the day's sent total is positive and its delivered total is between 0 and the sent total;
  likewise the click-through rate and the click total.  When the sent total and the
  numerator total are both zero the rate is NaN, the undefined marker.
\<close>

theorem daily_rate_bounds:
  assumes "x \<in> set (daily raw)"
  shows "(0 < dSent x \<and> 0 \<le> dDelivered x \<and> dDelivered x \<le> dSent x
            \<longrightarrow> in_unit_interval (dDelivery_Rate x))
       \<and> (0 < dSent x \<and> 0 \<le> dClicks x \<and> dClicks x \<le> dSent x
            \<longrightarrow> in_unit_interval (dCTR x))
       \<and> (dSent x = 0 \<and> dDelivered x = 0 \<longrightarrow> dDelivery_Rate x = NaN)
       \<and> (dSent x = 0 \<and> dClicks x = 0 \<longrightarrow> dCTR x = NaN)"
  using daily_rates(1,2) [OF assms]
  by (auto simp: ratio_in_unit_interval) (simp_all add: of_count_def)

theorem daily_rate_bounds_witness:
  "hd (daily zero_sent_day) \<in> set (daily zero_sent_day)
   \<and> dSent (hd (daily zero_sent_day)) = 0
   \<and> dDelivered (hd (daily zero_sent_day)) = 0
   \<and> dClicks (hd (daily zero_sent_day)) = 0
   \<and> dDelivery_Rate (hd (daily zero_sent_day)) = NaN
   \<and> dCTR (hd (daily zero_sent_day)) = NaN
   \<and> last (daily zero_sent_day) \<in> set (daily zero_sent_day)
   \<and> dSent (last (daily zero_sent_day)) = 20
   \<and> dDelivered (last (daily zero_sent_day)) = 19
   \<and> dClicks (last (daily zero_sent_day)) = 1
   \<and> in_unit_interval (dDelivery_Rate (last (daily zero_sent_day)))
   \<and> in_unit_interval (dCTR (last (daily zero_sent_day)))"
proof -
  have m: "hd (daily zero_sent_day) \<in> set (daily zero_sent_day)"
    "last (daily zero_sent_day) \<in> set (daily zero_sent_day)"
    by (simp_all add: zero_sent_day_def ex_defs etl_defs daily_defs)
  have v: "dSent (hd (daily zero_sent_day)) = 0" "dDelivered (hd (daily zero_sent_day)) = 0"
    "dClicks (hd (daily zero_sent_day)) = 0" "dSent (last (daily zero_sent_day)) = 20"
    "dDelivered (last (daily zero_sent_day)) = 19" "dClicks (last (daily zero_sent_day)) = 1"
    by (simp_all add: zero_sent_day_def ex_defs etl_defs daily_defs)
  show ?thesis
    using m daily_rate_bounds [OF m(1)] daily_rate_bounds [OF m(2)] by (simp add: v)
qed

text \<open>
  C4.  A row with \<^verbatim>\<open>Sent = 0\<close> gets NaN, the marker \<^verbatim>\<open>np.nan\<close> the script writes, for
  its delivery rate, click-through rate and revenue per send.  If the row passes the
  filter, its enriched row is in the enriched table and the daily aggregate has the row
  of its date, whose sent total is the sum over that date: the aggregation returns a table.
\<close>

theorem zero_sent_row_undefined:
  assumes "Sent r = 0"
  shows "Delivery_Rate (enrich_row d r) = NaN \<and> CTR (enrich_row d r) = NaN
         \<and> Rev_per_Sent (enrich_row d r) = NaN
         \<and> (r \<in> set (df raw) \<longrightarrow>
              enrich_row (df raw) r \<in> set (enrich raw)
              \<and> (\<exists>x \<in> set (daily raw). dDate x = Date r
                    \<and> x = daily_of (df raw) (Date r)
                    \<and> dSent x = sum_list (map Sent (on_date (Date r) (df raw)))))"
proof -
  have "Date r \<in> set (group_dates (df raw))" if "r \<in> set (df raw)"
    using that by (simp add: group_dates_def set_unique)
  then have "daily_of (df raw) (Date r) \<in> set (daily raw)" if "r \<in> set (df raw)"
    using that by (simp add: daily_def)
  then show ?thesis
    using assms by (auto simp: enrich_row_def np_where_def enrich_def daily_of_def Let_def)
qed

theorem zero_sent_row_undefined_witness:
  "Sent zero_sent_row = 0 \<and> zero_sent_row \<in> set (df zero_sent_day)
   \<and> Delivery_Rate (enrich_row (df zero_sent_day) zero_sent_row) = NaN
   \<and> CTR (enrich_row (df zero_sent_day) zero_sent_row) = NaN
   \<and> Rev_per_Sent (enrich_row (df zero_sent_day) zero_sent_row) = NaN
   \<and> enrich_row (df zero_sent_day) zero_sent_row \<in> set (enrich zero_sent_day)
   \<and> (\<exists>x \<in> set (daily zero_sent_day). dDate x = 739650 \<and> dSent x = 0)"
proof -
  have h: "Sent zero_sent_row = 0" "zero_sent_row \<in> set (df zero_sent_day)"
    by (simp_all add: zero_sent_day_def ex_defs etl_defs)
  have v: "Date zero_sent_row = 739650"
    "sum_list (map Sent (on_date 739650 (df zero_sent_day))) = 0"
    by (simp_all add: zero_sent_day_def ex_defs etl_defs on_date_def)
  show ?thesis
    using h zero_sent_row_undefined [OF h(1), of "df zero_sent_day" zero_sent_day]
    by (auto simp: v)
qed

text \<open>
  C8.  On a day of the daily aggregate with no click, the revenue per click is the day's
  revenue divided by one, that is, the revenue itself.
\<close>

theorem rev_per_click_zero_clicks:
  assumes "x \<in> set (daily raw)" and "dClicks x = 0"
  shows "dRev_per_Click x = fdiv (Fin (dRevenue x)) (Fin 1) \<and> dRev_per_Click x = Fin (dRevenue x)"
  using daily_rates(4) [OF assms(1)] assms(2) by (simp add: replace_0_1_def of_count_def)

theorem rev_per_click_zero_clicks_witness:
  "hd (daily flat_revenue) \<in> set (daily flat_revenue)
   \<and> dClicks (hd (daily flat_revenue)) = 0
   \<and> dRevenue (hd (daily flat_revenue)) = 100
   \<and> dRev_per_Click (hd (daily flat_revenue)) = Fin 100"
proof -
  have h: "hd (daily flat_revenue) \<in> set (daily flat_revenue)"
    "dClicks (hd (daily flat_revenue)) = 0"
    by (simp_all add: ex_defs etl_defs daily_defs)
  have v: "dRevenue (hd (daily flat_revenue)) = 100"
    by (simp add: ex_defs etl_defs daily_defs)
  show ?thesis
    using h rev_per_click_zero_clicks [OF h] by (simp add: v)
qed

text \<open>
  C5, as stated, fails: with no click before the cutoff and five after it the percent
  change of the clicks is plus infinity, and with the same average daily revenue in both
  periods the shares of the volume and efficiency effects are plus and minus infinity.
\<close>

theorem zero_divisor_percent_counterexample:
  "Metric (desc_table flat_revenue ! 3) = ''Clicks''
   \<and> Pre_Decline_Mean (desc_table flat_revenue ! 3) = Fin 0
   \<and> Pct_Change (desc_table flat_revenue ! 3) = PInf
   \<and> total_decline flat_revenue = Fin 0
   \<and> share_of_decline flat_revenue (volume_effect flat_revenue) = PInf
   \<and> share_of_decline flat_revenue (efficiency_effect flat_revenue) = NInf"
proof -
  have "daily flat_revenue =
      [daily_of (df flat_revenue) 739650, daily_of (df flat_revenue) 739651]"
    by (simp add: ex_defs etl_defs daily_def group_dates_def)
  then have "pre flat_revenue = [daily_of (df flat_revenue) 739650]"
    "post flat_revenue = [daily_of (df flat_revenue) 739651]"
    by (simp_all add: pre_def post_def daily_of_def Let_def cutoff_def)
  then have "desc_row_of flat_revenue (desc_metrics ! 3) =
      \<lparr>Metric = ''Clicks'', Pre_Decline_Mean = Fin 0, Post_Decline_Mean = Fin 5,
       Pct_Change = PInf\<rparr>"
    by (simp add: desc_row_of_def desc_metrics_def pd_mean_def fsum_def pct_change_def
        fsub_def signed_inf_def ex_defs etl_defs daily_of_def on_date_def of_count_def Let_def)
  then have d: "desc_table flat_revenue ! 3 =
      \<lparr>Metric = ''Clicks'', Pre_Decline_Mean = Fin 0, Post_Decline_Mean = Fin 5,
       Pct_Change = PInf\<rparr>"
    by (simp add: desc_table_def desc_metrics_def)
  have t: "total_decline flat_revenue = Fin 0" "volume_effect flat_revenue = Fin 100"
    "efficiency_effect flat_revenue = Fin (- 100)"
    by (simp_all add: ex_defs etl_defs decomp_defs)
  show ?thesis
    by (simp add: d t share_of_decline_def signed_inf_def)
qed

text \<open>
  C5, amended.  A percentage with a divisor that is exactly zero is the float quotient,
  never a finite number: for a row of the descriptive table whose pre-period mean is zero,
  and for the share of any effect when the total decline is zero, it is NaN if the
  numerator is zero or NaN and the infinity of the numerator's sign otherwise.
\<close>

theorem zero_divisor_percent:
  "(\<forall>m \<in> set (desc_table raw). Pre_Decline_Mean m = Fin 0 \<longrightarrow>
       Pct_Change m = zero_divisor_quotient (Post_Decline_Mean m) \<and> \<not> is_finite (Pct_Change m))
   \<and> (total_decline raw = Fin 0 \<longrightarrow>
       share_of_decline raw effect = zero_divisor_quotient effect
       \<and> \<not> is_finite (share_of_decline raw effect))"
proof -
  have z: "\<not> is_finite (zero_divisor_quotient v)" for v
    by (cases v) (simp_all add: zero_divisor_quotient_def is_finite_def signed_inf_def)
  have "Pct_Change m = pct_change (Pre_Decline_Mean m) (Post_Decline_Mean m)"
    if "m \<in> set (desc_table raw)" for m
    using that by (auto simp: desc_table_def desc_row_of_def Let_def)
  then have a: "Pct_Change m = zero_divisor_quotient (Post_Decline_Mean m)"
    if "m \<in> set (desc_table raw)" "Pre_Decline_Mean m = Fin 0" for m
    using that by (simp add: pct_change_zero)
  have b: "share_of_decline raw effect = zero_divisor_quotient effect"
    if "total_decline raw = Fin 0"
    using that by (cases effect)
      (simp_all add: share_of_decline_def zero_divisor_quotient_def signed_inf_def)
  show ?thesis
    using a b z by simp
qed

theorem zero_divisor_percent_witness:
  "desc_table flat_revenue ! 3 \<in> set (desc_table flat_revenue)
   \<and> Pre_Decline_Mean (desc_table flat_revenue ! 3) = Fin 0
   \<and> Post_Decline_Mean (desc_table flat_revenue ! 3) = Fin 5
   \<and> Pct_Change (desc_table flat_revenue ! 3) = PInf
   \<and> total_decline flat_revenue = Fin 0
   \<and> share_of_decline flat_revenue (Fin 0) = NaN
   \<and> share_of_decline flat_revenue (Fin (- 100)) = NInf"
proof -
  have "daily flat_revenue =
      [daily_of (df flat_revenue) 739650, daily_of (df flat_revenue) 739651]"
    by (simp add: ex_defs etl_defs daily_def group_dates_def)
  then have "pre flat_revenue = [daily_of (df flat_revenue) 739650]"
    "post flat_revenue = [daily_of (df flat_revenue) 739651]"
    by (simp_all add: pre_def post_def daily_of_def Let_def cutoff_def)
  then have m: "Pre_Decline_Mean (desc_row_of flat_revenue (desc_metrics ! 3)) = Fin 0"
    "Post_Decline_Mean (desc_row_of flat_revenue (desc_metrics ! 3)) = Fin 5"
    by (simp_all add: desc_row_of_def desc_metrics_def pd_mean_def fsum_def
        ex_defs etl_defs daily_of_def on_date_def of_count_def Let_def)
  have i: "desc_table flat_revenue ! 3 = desc_row_of flat_revenue (desc_metrics ! 3)"
    by (simp add: desc_table_def desc_metrics_def)
  have h: "desc_table flat_revenue ! 3 \<in> set (desc_table flat_revenue)"
    by (rule nth_mem) (simp add: desc_table_def desc_metrics_def)
  have t: "total_decline flat_revenue = Fin 0"
    by (simp add: ex_defs etl_defs decomp_defs)
  show ?thesis
    using h t zero_divisor_percent [of flat_revenue "Fin 0"]
      zero_divisor_percent [of flat_revenue "Fin (- 100)"]
    by (simp add: i m zero_divisor_quotient_def signed_inf_def)
qed

section \<open>Exclusion filter and phone labels\<close>

text \<open>
  C9.  The filtered table has at most as many rows as the input, and no row of it or of
  the enriched table, and no key of the phone-label mapping, has the excluded phone
  number.  Every table and effect the script derives is the one it derives from the
  input without the excluded rows.
\<close>

theorem exclusion_filter:
  "length (df raw) \<le> length raw
   \<and> (\<forall>r \<in> set (df raw). Phone_Number r \<noteq> excluded_phone)
   \<and> (\<forall>e \<in> set (enrich raw). Phone_Number e \<noteq> excluded_phone)
   \<and> excluded_phone \<notin> dom (phone_map (df raw))
   \<and> df (df raw) = df raw
   \<and> enrich (df raw) = enrich raw
   \<and> daily (df raw) = daily raw
   \<and> desc_table (df raw) = desc_table raw
   \<and> total_decline (df raw) = total_decline raw
   \<and> volume_effect (df raw) = volume_effect raw
   \<and> efficiency_effect (df raw) = efficiency_effect raw
   \<and> retired_effect (df raw) = retired_effect raw
   \<and> active_effect (df raw) = active_effect raw"
proof -
  have a: "length (df raw) \<le> length raw"
    by (simp add: df_def)
  have b: "\<forall>r \<in> set (df raw). Phone_Number r \<noteq> excluded_phone"
    by (simp add: df_def)
  have c: "\<forall>e \<in> set (enrich raw). Phone_Number e \<noteq> excluded_phone"
    using b by (auto simp: enrich_def enrich_row_def)
  have d: "excluded_phone \<notin> dom (phone_map (df raw))"
    by (simp add: dom_phone_map Phone_df)
  have e: "pre_df (df raw) = pre_df raw" "post_df (df raw) = post_df raw"
    by (simp_all add: pre_df_def post_df_def df_idem)
  have f: "pre (df raw) = pre raw" "post (df raw) = post raw"
    by (simp_all add: pre_def post_def daily_def df_idem)
  have g: "desc_table (df raw) = desc_table raw"
    by (simp add: desc_table_def desc_row_of_def f)
  have n: "n_pre_days (df raw) = n_pre_days raw" "n_post_days (df raw) = n_post_days raw"
    by (simp_all add: n_pre_days_def n_post_days_def e)
  have k: "pre_avg_rev (df raw) = pre_avg_rev raw" "post_avg_rev (df raw) = post_avg_rev raw"
    "pre_avg_sent (df raw) = pre_avg_sent raw" "post_avg_sent (df raw) = post_avg_sent raw"
    "pre_retired_rev (df raw) = pre_retired_rev raw"
    "post_retired_rev (df raw) = post_retired_rev raw"
    "pre_active_rev (df raw) = pre_active_rev raw"
    "post_active_rev (df raw) = post_active_rev raw"
    by (simp_all add: pre_avg_rev_def post_avg_rev_def pre_avg_sent_def post_avg_sent_def
        pre_retired_rev_def post_retired_rev_def pre_active_rev_def post_active_rev_def e n)
  have l: "total_decline (df raw) = total_decline raw"
    "volume_effect (df raw) = volume_effect raw"
    "efficiency_effect (df raw) = efficiency_effect raw"
    "retired_effect (df raw) = retired_effect raw"
    "active_effect (df raw) = active_effect raw"
    by (simp_all add: total_decline_def volume_effect_def efficiency_effect_def
        retired_effect_def active_effect_def pre_rps_def post_rps_def k)
  show ?thesis
    using a b c d g l by (simp add: df_idem enrich_def daily_def)
qed

theorem exclusion_filter_witness:
  "length scenario_two_days = 4 \<and> length (df scenario_two_days) = 3
   \<and> excluded_phone \<in> Phone_Number ` set scenario_two_days
   \<and> length (df scenario_two_days) \<le> length scenario_two_days
   \<and> map Phone_Number (df scenario_two_days) = [15122546961, 15122546962, 15122546962]
   \<and> map Phone_Number (enrich scenario_two_days) = [15122546961, 15122546962, 15122546962]
   \<and> excluded_phone \<notin> dom (phone_map (df scenario_two_days))
   \<and> daily (df scenario_two_days) = daily scenario_two_days
   \<and> total_decline (df scenario_two_days) = total_decline scenario_two_days"
proof -
  have v: "length scenario_two_days = 4" "length (df scenario_two_days) = 3"
    "excluded_phone \<in> Phone_Number ` set scenario_two_days"
    "map Phone_Number (df scenario_two_days) = [15122546961, 15122546962, 15122546962]"
    by (simp_all add: ex_defs etl_defs)
  have e: "map Phone_Number (enrich scenario_two_days) = map Phone_Number (df scenario_two_days)"
    by (simp add: enrich_def enrich_row_def comp_def)
  show ?thesis
    using exclusion_filter [of scenario_two_days] by (simp add: e v)
qed

text \<open>
  C7.  The distinct phone numbers of the filtered table, in strictly ascending order, get
  the labels \<^verbatim>\<open>Phone_1\<close>, \<^verbatim>\<open>Phone_2\<close>, ... in that order; the mapping is defined
  exactly on those numbers and is a bijection onto the labels \<^verbatim>\<open>Phone_1\<close> to
  \<^verbatim>\<open>Phone_N\<close>, N the number of distinct numbers.  It is a function of the set of
  distinct numbers alone, so the same input always gives the same mapping.
\<close>

theorem phone_map_bijection:
  "sorted_wrt (<) (phone_ids (df raw))
   \<and> set (phone_ids (df raw)) = Phone_Number ` set (df raw)
   \<and> (\<forall>i < length (phone_ids (df raw)).
         phone_map (df raw) (phone_ids (df raw) ! i) = Some (''Phone_'' @ str_nat (i + 1)))
   \<and> dom (phone_map (df raw)) = Phone_Number ` set (df raw)
   \<and> bij_betw (\<lambda>v. the (phone_map (df raw) v)) (Phone_Number ` set (df raw))
         ((\<lambda>k. ''Phone_'' @ str_nat k) ` {1..length (phone_ids (df raw))})
   \<and> (\<forall>raw'. Phone_Number ` set (df raw') = Phone_Number ` set (df raw)
         \<longrightarrow> phone_map (df raw') = phone_map (df raw))"
proof -
  have a: "\<forall>i < length (phone_ids (df raw)).
         phone_map (df raw) (phone_ids (df raw) ! i) = Some (''Phone_'' @ str_nat (i + 1))"
    using phone_map_nth [of _ "df raw"] by (simp add: phone_label_def)
  have b: "bij_betw (\<lambda>v. the (phone_map (df raw) v)) (Phone_Number ` set (df raw))
         ((\<lambda>k. ''Phone_'' @ str_nat k) ` {1..length (phone_ids (df raw))})"
    using phone_map_bij [of "df raw"] by (simp only: label_image)
  have c: "\<forall>raw'. Phone_Number ` set (df raw') = Phone_Number ` set (df raw)
         \<longrightarrow> phone_map (df raw') = phone_map (df raw)"
    using phone_map_cong by blast
  show ?thesis
    using a b c phone_ids_props(1,3) [of "df raw"] dom_phone_map [of "df raw"] by blast
qed

theorem phone_map_bijection_witness:
  "phone_ids (df scenario_two_days) = [15122546961, 15122546962]
   \<and> phone_map (df scenario_two_days) 15122546961 = Some ''Phone_1''
   \<and> phone_map (df scenario_two_days) 15122546962 = Some ''Phone_2''
   \<and> dom (phone_map (df scenario_two_days)) = {15122546961, 15122546962}
   \<and> str_nat 12 = ''12''"
proof -
  have ids: "phone_ids (df scenario_two_days) = [15122546961, 15122546962]"
    by (simp add: ex_defs etl_defs phone_ids_def)
  have img: "Phone_Number ` set (df scenario_two_days) = {15122546961, 15122546962}"
    by (auto simp: ex_defs etl_defs)
  have s: "str_nat (Suc 0) = ''1''" "str_nat 2 = ''2''" "str_nat (Suc (Suc 0)) = ''2''"
    "str_nat 12 = ''12''"
    by (simp_all add: str_nat.simps [of "Suc 0"] str_nat.simps [of "Suc (Suc 0)"]
        str_nat.simps [of 2] str_nat.simps [of 12] str_nat.simps [of 1] digit_char_def)
  note t = phone_map_bijection [of scenario_two_days]
  have n: "phone_map (df scenario_two_days) (phone_ids (df scenario_two_days) ! i)
          = Some (''Phone_'' @ str_nat (i + 1))"
    if "i < length (phone_ids (df scenario_two_days))" for i
    using t that by blast
  have d: "dom (phone_map (df scenario_two_days)) = Phone_Number ` set (df scenario_two_days)"
    using t by blast
  have "phone_map (df scenario_two_days) 15122546961 = Some ''Phone_1''"
    "phone_map (df scenario_two_days) 15122546962 = Some ''Phone_2''"
    using n [of 0] n [of 1] by (simp_all add: ids s)
  then show ?thesis
    using ids d by (simp add: s img)
qed

text \<open>
  C10.  The excluded phone number has no label; the number of labels is the number of
  distinct phone numbers of the input other than the excluded one, the labels run from
  \<^verbatim>\<open>Phone_1\<close> to that number, and when the excluded number occurs in the input this is
  one less than the number of distinct phone numbers of the input.
\<close>

theorem phone_map_after_exclusion:
  "phone_map (df raw) excluded_phone = None
   \<and> length (phone_ids (df raw)) = card (Phone_Number ` set raw - {excluded_phone})
   \<and> ran (phone_map (df raw))
       = (\<lambda>k. ''Phone_'' @ str_nat k) ` {1..card (Phone_Number ` set raw - {excluded_phone})}
   \<and> (excluded_phone \<in> Phone_Number ` set raw
        \<longrightarrow> Suc (length (phone_ids (df raw))) = card (Phone_Number ` set raw))"
proof -
  have "excluded_phone \<notin> dom (phone_map (df raw))"
    by (simp add: dom_phone_map Phone_df)
  then have a: "phone_map (df raw) excluded_phone = None"
    by (simp add: domIff)
  have "length (phone_ids (df raw)) = card (set (phone_ids (df raw)))"
    using phone_ids_props(2) [of "df raw"] by (simp add: distinct_card)
  then have b: "length (phone_ids (df raw)) = card (Phone_Number ` set raw - {excluded_phone})"
    by (simp add: phone_ids_props Phone_df)
  have "ran (phone_map (df raw)) = phone_label ` {0..<length (phone_ids (df raw))}"
    using phone_map_bij [of "df raw"]
    by (simp add: ran_eq_image dom_phone_map bij_betw_def)
  then have c: "ran (phone_map (df raw))
       = (\<lambda>k. ''Phone_'' @ str_nat k) ` {1..card (Phone_Number ` set raw - {excluded_phone})}"
    by (simp add: label_image b)
  have d: "Suc (length (phone_ids (df raw))) = card (Phone_Number ` set raw)"
    if "excluded_phone \<in> Phone_Number ` set raw"
  proof -
    have "Suc (card (Phone_Number ` set raw - {excluded_phone})) = card (Phone_Number ` set raw)"
      using that by (intro card_Suc_Diff1) simp_all
    then show ?thesis
      by (simp only: b)
  qed
  show ?thesis
    using a b c d by simp
qed

theorem phone_map_after_exclusion_witness:
  "excluded_phone \<in> Phone_Number ` set scenario_two_days
   \<and> card (Phone_Number ` set scenario_two_days) = 3
   \<and> phone_map (df scenario_two_days) excluded_phone = None
   \<and> length (phone_ids (df scenario_two_days)) = 2
   \<and> ran (phone_map (df scenario_two_days)) = {''Phone_1'', ''Phone_2''}"
proof -
  have p: "Phone_Number ` set scenario_two_days = {15122546961, 15122546962, 20407}"
    by (auto simp: ex_defs)
  have h: "excluded_phone \<in> Phone_Number ` set scenario_two_days"
    by (simp add: p excluded_phone_def)
  have "Phone_Number ` set scenario_two_days - {excluded_phone} = {15122546961, 15122546962}"
    by (auto simp: p excluded_phone_def)
  then have c: "card (Phone_Number ` set scenario_two_days - {excluded_phone}) = 2"
    "card (Phone_Number ` set scenario_two_days) = 3"
    by (simp_all add: p)
  have s: "str_nat (Suc 0) = ''1''" "str_nat 2 = ''2''"
    by (simp_all add: str_nat.simps [of "Suc 0"] str_nat.simps [of 2] digit_char_def)
  have "{1..2::nat} = {1, 2}" by auto
  then show ?thesis
    using h phone_map_after_exclusion [of scenario_two_days] by (simp add: c s)
qed

section \<open>Failure of a regression fit\<close>




end
